theory Spec2Isabelle
  imports Main "HOL-Library.Code_Target_Numeral"
begin

section \<open>Python values used by the bot\<close>

subsection \<open>Text and integers\<close>

text \<open>
  A Python \<open>str\<close> is modelled as a \<open>string\<close> holding its UTF-8 bytes, so the two
  non-ASCII characters of \<open>bot.py\<close> are byte sequences: the waving hand (U+1F44B) and
  the division sign (U+00F7). Python's \<open>int\<close> is unbounded and is modelled as \<open>int\<close>.
\<close>

definition waving_hand :: string where
  "waving_hand = [CHR 0xF0, CHR 0x9F, CHR 0x91, CHR 0x8B]"

definition division_sign :: string where
  "division_sign = [CHR 0xC3, CHR 0xB7]"

definition is_digit :: "char \<Rightarrow> bool" where
  "is_digit c = (48 \<le> (of_char c :: nat) \<and> (of_char c :: nat) \<le> 57)"

definition digit_val :: "char \<Rightarrow> nat" where
  "digit_val c = of_char c - 48"

definition digit_char :: "nat \<Rightarrow> char" where
  "digit_char n = char_of (48 + n)"

text \<open>\<open>str(n)\<close> for a non-negative and for an arbitrary integer.\<close>

fun str_nat :: "nat \<Rightarrow> string" where
  "str_nat n = (if n < 10 then [digit_char n] else str_nat (n div 10) @ [digit_char (n mod 10)])"

definition str_int :: "int \<Rightarrow> string" where
  "str_int i = (if i < 0 then CHR ''-'' # str_nat (nat (- i)) else str_nat (nat i))"

text \<open>
  The digit part of a numeric literal as \<open>int()\<close> and \<open>float()\<close> read it: decimal
  digits, with single underscores allowed between two digits. \<open>prev\<close> says that the
  character just read was a digit. Tokens are byte strings here, so only the ASCII
  decimal digits are digits.
\<close>

fun digitpart :: "nat \<Rightarrow> bool \<Rightarrow> string \<Rightarrow> nat option" where
  "digitpart acc prev [] = (if prev then Some acc else None)"
| "digitpart acc prev (c # cs) =
     (if is_digit c then digitpart (10 * acc + digit_val c) True cs
      else if c = CHR ''_'' \<and> prev then digitpart acc False cs
      else None)"

fun strip_sign :: "string \<Rightarrow> bool \<times> string" where
  "strip_sign [] = (False, [])"
| "strip_sign (c # cs) =
     (if c = CHR ''-'' then (True, cs)
      else if c = CHR ''+'' then (False, cs)
      else (False, c # cs))"

text \<open>
  A token of printable ASCII characters (codes 33 to 126). On such a token \<open>py_int\<close> and
  \<open>py_float\<close> below are \<open>int(token)\<close> and \<open>float(token)\<close>, with \<open>None\<close> for the
  \<open>ValueError\<close> they raise. Python reads more than that: it strips surrounding whitespace
  and takes every Unicode decimal digit for its ASCII digit (\<open>int\<close> of a full-width 2 is
  2). A value the two functions return is the value Python returns, but on a token with
  other characters \<open>None\<close> does not say that Python rejects it; what is proved from a
  \<open>None\<close> is therefore proved for ASCII tokens only.
\<close>

definition ascii_token :: "string \<Rightarrow> bool" where
  "ascii_token t = list_all (\<lambda>c. 33 \<le> (of_char c :: nat) \<and> (of_char c :: nat) \<le> 126) t"

text \<open>\<open>int(token)\<close> in base ten, for an ASCII token.\<close>

definition py_int :: "string \<Rightarrow> int option" where
  "py_int s = (case strip_sign s of (neg, ds) \<Rightarrow>
     (case digitpart 0 False ds of
        None \<Rightarrow> None
      | Some n \<Rightarrow> Some (if neg then - int n else int n)))"

subsection \<open>Floats\<close>

text \<open>
  A Python \<open>float\<close> is an IEEE 754 binary64 value. \<open>Finite s m e\<close> is the value
  \<open>(-1)^s * m * 2^e\<close>; the operations below produce it in canonical form (zero as
  \<open>Finite s 0 0\<close>, otherwise \<open>m < 2^53\<close>, \<open>-1074 \<le> e \<le> 971\<close> and \<open>2^52 \<le> m\<close> unless
  \<open>e = -1074\<close>). Every operation rounds the exact result to nearest, ties to even.
\<close>

datatype pyfloat = Finite bool nat int | Infinity bool | NaN

datatype py_exn = AttributeError | ZeroDivisionError | ValueError | OverflowError | TypeError

fun bit_length :: "nat \<Rightarrow> nat" where
  "bit_length n = (if n = 0 then 0 else Suc (bit_length (n div 2)))"

text \<open>The integer nearest to \<open>n / d\<close>, ties to the even one.\<close>

definition round_half_even :: "nat \<Rightarrow> nat \<Rightarrow> nat" where
  "round_half_even n d =
     (let q = n div d; r = n mod d
      in if d < 2 * r \<or> (2 * r = d \<and> odd q) then q + 1 else q)"

text \<open>The binary64 value nearest to the rational \<open>(-1)^s * n / d\<close>.\<close>

definition round_to_double :: "bool \<Rightarrow> nat \<Rightarrow> nat \<Rightarrow> pyfloat" where
  "round_to_double s n d =
     (if n = 0 then Finite s 0 0
      else
        let e0 = int (bit_length n) - int (bit_length d) - 53;
            e1 = (if 2 ^ 53 \<le> (n * 2 ^ nat (- e0)) div (d * 2 ^ nat e0) then e0 + 1 else e0);
            e = max e1 (- 1074);
            m = round_half_even (n * 2 ^ nat (- e)) (d * 2 ^ nat e)
        in if m = 0 then Finite s 0 0
           else if m = 2 ^ 53 then (if 971 < e + 1 then Infinity s else Finite s (2 ^ 52) (e + 1))
           else if 971 < e then Infinity s
           else Finite s m e)"

definition decimal_to_double :: "bool \<Rightarrow> nat \<Rightarrow> int \<Rightarrow> pyfloat" where
  "decimal_to_double s n k = round_to_double s (n * 10 ^ nat k) (10 ^ nat (- k))"

text \<open>
  \<open>float(token)\<close> for an ASCII token: an optional sign, then \<open>inf\<close>, \<open>infinity\<close> or
  \<open>nan\<close> in any case, or a decimal number with an optional fraction and exponent.
\<close>

definition lower_char :: "char \<Rightarrow> char" where
  "lower_char c =
     (if 65 \<le> (of_char c :: nat) \<and> (of_char c :: nat) \<le> 90
      then char_of (of_char c + 32 :: nat) else c)"

fun split_at :: "(char \<Rightarrow> bool) \<Rightarrow> string \<Rightarrow> string \<times> string option" where
  "split_at P [] = ([], None)"
| "split_at P (c # cs) =
     (if P c then ([], Some cs) else (case split_at P cs of (a, b) \<Rightarrow> (c # a, b)))"

definition digits_or_empty :: "string \<Rightarrow> nat option" where
  "digits_or_empty s = (if s = [] then Some 0 else digitpart 0 False s)"

definition exponent_part :: "string option \<Rightarrow> int option" where
  "exponent_part ex =
     (case ex of
        None \<Rightarrow> Some 0
      | Some e \<Rightarrow> (case strip_sign e of (neg, ds) \<Rightarrow>
          (case digitpart 0 False ds of
             None \<Rightarrow> None
           | Some n \<Rightarrow> Some (if neg then - int n else int n))))"

definition py_float :: "string \<Rightarrow> pyfloat option" where
  "py_float s = (case strip_sign s of (neg, body) \<Rightarrow>
     if map lower_char body = ''inf'' \<or> map lower_char body = ''infinity''
     then Some (Infinity neg)
     else if map lower_char body = ''nan'' then Some NaN
     else (case split_at (\<lambda>c. c = CHR ''e'' \<or> c = CHR ''E'') body of (mant, ex) \<Rightarrow>
       (case split_at (\<lambda>c. c = CHR ''.'') mant of (ip, fp) \<Rightarrow>
          let frac = (case fp of None \<Rightarrow> [] | Some f \<Rightarrow> f);
              nfrac = length (filter is_digit frac)
          in if ip = [] \<and> frac = [] then None
             else (case (digits_or_empty ip, digits_or_empty frac, exponent_part ex) of
                     (Some i, Some f, Some x) \<Rightarrow>
                        Some (decimal_to_double neg (i * 10 ^ nfrac + f) (x - int nfrac))
                   | _ \<Rightarrow> None))))"

text \<open>
  \<open>repr\<close> of a float (what an f-string without a format spec prints): the shortest
  decimal digit string that reads back as the same float, the nearest one among the
  shortest; exponent notation when the decimal point would lie more than 16 places
  right or 4 places left of the first digit.
\<close>

fun ilog10 :: "nat \<Rightarrow> nat" where
  "ilog10 n = (if n < 10 then 0 else Suc (ilog10 (n div 10)))"

function lead_zeros :: "nat \<Rightarrow> nat \<Rightarrow> nat" where
  "lead_zeros n d = (if n = 0 \<or> d \<le> n then 0 else Suc (lead_zeros (10 * n) d))"
  by pat_completeness auto
termination
  by (relation "measure (\<lambda>(n, d). d - n)") auto

definition decimal_exponent :: "nat \<Rightarrow> nat \<Rightarrow> int" where
  "decimal_exponent n d =
     (if d \<le> n then int (ilog10 (n div d)) else - int (lead_zeros n d))"

definition candidate :: "nat \<Rightarrow> nat \<Rightarrow> nat \<Rightarrow> (nat \<times> int) option" where
  "candidate n d k =
     (let q = decimal_exponent n d - int k + 1;
          num = n * 10 ^ nat (- q);
          den = d * 10 ^ nat q;
          lo = num div den;
          r = num mod den;
          x = round_to_double False n d;
          ok_lo = (decimal_to_double False lo q = x);
          ok_hi = (decimal_to_double False (lo + 1) q = x);
          pick_hi = (den < 2 * r \<or> (2 * r = den \<and> odd lo))
      in if ok_lo \<and> ok_hi then Some (if pick_hi then lo + 1 else lo, q)
         else if ok_lo then Some (lo, q)
         else if ok_hi then Some (lo + 1, q)
         else None)"

fun shortest :: "nat \<Rightarrow> nat \<Rightarrow> nat \<Rightarrow> nat \<Rightarrow> nat \<times> int" where
  "shortest 0 k n d =
     (case candidate n d k of
        Some r \<Rightarrow> r
      | None \<Rightarrow> (let q = decimal_exponent n d - int k + 1
                 in (round_half_even (n * 10 ^ nat (- q)) (d * 10 ^ nat q), q)))"
| "shortest (Suc fuel) k n d =
     (case candidate n d k of Some r \<Rightarrow> r | None \<Rightarrow> shortest fuel (Suc k) n d)"

definition strip_zeros :: "string \<Rightarrow> string" where
  "strip_zeros s = rev (dropWhile (\<lambda>c. c = CHR ''0'') (rev s))"

definition pad2 :: "nat \<Rightarrow> string" where
  "pad2 n = (if n < 10 then CHR ''0'' # str_nat n else str_nat n)"

definition repr_digits :: "string \<Rightarrow> int \<Rightarrow> string" where
  "repr_digits ds decpt =
     (if decpt \<le> - 4 \<or> 16 < decpt then
        take 1 ds @ (if 1 < length ds then CHR ''.'' # drop 1 ds else [])
        @ ''e'' @ (if decpt - 1 < 0 then ''-'' else ''+'') @ pad2 (nat \<bar>decpt - 1\<bar>)
      else if decpt \<le> 0 then ''0.'' @ replicate (nat (- decpt)) CHR ''0'' @ ds
      else if int (length ds) \<le> decpt
      then ds @ replicate (nat decpt - length ds) CHR ''0'' @ ''.0''
      else take (nat decpt) ds @ ''.'' @ drop (nat decpt) ds)"

fun float_repr :: "pyfloat \<Rightarrow> string" where
  "float_repr NaN = ''nan''"
| "float_repr (Infinity s) = (if s then ''-inf'' else ''inf'')"
| "float_repr (Finite s m e) =
     (if s then ''-'' else []) @
     (if m = 0 then ''0.0''
      else (case shortest 16 1 (m * 2 ^ nat e) (2 ^ nat (- e)) of (N, q) \<Rightarrow>
              repr_digits (strip_zeros (str_nat N)) (int (length (str_nat N)) + q)))"

text \<open>The format spec \<open>.2f\<close>: the exact value rounded to two decimal places.\<close>

fun format_2f :: "pyfloat \<Rightarrow> string" where
  "format_2f NaN = ''nan''"
| "format_2f (Infinity s) = (if s then ''-inf'' else ''inf'')"
| "format_2f (Finite s m e) =
     (let N = round_half_even (m * 100 * 2 ^ nat e) (2 ^ nat (- e))
      in (if s then ''-'' else []) @ str_nat (N div 100) @ ''.'' @ pad2 (N mod 100))"

text \<open>\<open>x == i\<close> for a float \<open>x\<close> and an integer \<open>i\<close>: the exact values are compared.\<close>

fun float_eq_int :: "pyfloat \<Rightarrow> int \<Rightarrow> bool" where
  "float_eq_int (Finite s m e) i =
     ((if s then - int m else int m) * 2 ^ nat e = i * 2 ^ nat (- e))"
| "float_eq_int (Infinity s) i = False"
| "float_eq_int NaN i = False"

fun float_is_zero :: "pyfloat \<Rightarrow> bool" where
  "float_is_zero (Finite s m e) = (m = 0)"
| "float_is_zero (Infinity s) = False"
| "float_is_zero NaN = False"

fun float_div :: "pyfloat \<Rightarrow> pyfloat \<Rightarrow> pyfloat" where
  "float_div (Finite s1 m1 e1) (Finite s2 m2 e2) =
     round_to_double (s1 \<noteq> s2) (m1 * 2 ^ nat (e1 - e2)) (m2 * 2 ^ nat (e2 - e1))"
| "float_div (Finite s1 m1 e1) (Infinity s2) = Finite (s1 \<noteq> s2) 0 0"
| "float_div (Infinity s1) (Finite s2 m2 e2) = Infinity (s1 \<noteq> s2)"
| "float_div (Infinity s1) (Infinity s2) = NaN"
| "float_div NaN b = NaN"
| "float_div a NaN = NaN"

text \<open>\<open>a / b\<close> on floats raises \<open>ZeroDivisionError\<close> exactly when \<open>b\<close> is a zero.\<close>

definition py_truediv :: "pyfloat \<Rightarrow> pyfloat \<Rightarrow> py_exn + pyfloat" where
  "py_truediv a b = (if float_is_zero b then Inl ZeroDivisionError else Inr (float_div a b))"

fun float_mul :: "pyfloat \<Rightarrow> pyfloat \<Rightarrow> pyfloat" where
  "float_mul (Finite s1 m1 e1) (Finite s2 m2 e2) =
     round_to_double (s1 \<noteq> s2) (m1 * m2 * 2 ^ nat (e1 + e2)) (2 ^ nat (- (e1 + e2)))"
| "float_mul (Finite s1 m1 e1) (Infinity s2) = (if m1 = 0 then NaN else Infinity (s1 \<noteq> s2))"
| "float_mul (Infinity s1) (Finite s2 m2 e2) = (if m2 = 0 then NaN else Infinity (s1 \<noteq> s2))"
| "float_mul (Infinity s1) (Infinity s2) = Infinity (s1 \<noteq> s2)"
| "float_mul NaN b = NaN"
| "float_mul a NaN = NaN"

text \<open>The float an integer operand is converted to (used at the literal \<open>1000\<close>).\<close>

definition float_of_int :: "int \<Rightarrow> pyfloat" where
  "float_of_int i = round_to_double (i < 0) (nat \<bar>i\<bar>) 1"

text \<open>\<open>round(x)\<close> with one argument: the nearest integer, ties to even.\<close>

fun py_round :: "pyfloat \<Rightarrow> py_exn + int" where
  "py_round NaN = Inl ValueError"
| "py_round (Infinity s) = Inl OverflowError"
| "py_round (Finite s m e) =
     (let n = int (round_half_even (m * 2 ^ nat e) (2 ^ nat (- e)))
      in Inr (if s then - n else n))"

section \<open>The data of the messaging platform\<close>

text \<open>
  What the gateway library hands to the handlers of \<open>bot.py\<close>, reduced to the
  attributes the handlers read. A guild's owner is the cached member, a message's
  guild is absent in a direct message, and a guild may have no icon and no known member
  count: each is an \<open>option\<close>, \<open>None\<close> being Python's \<open>None\<close>.
\<close>

record member =
  member_mention :: string

record datetime =
  dt_year :: nat
  dt_month :: nat
  dt_day :: nat

record guild =
  guild_name :: string
  guild_id :: nat
  guild_owner :: "member option"
  guild_member_count :: "nat option"
  guild_created_at :: datetime
  guild_icon_url :: "string option"

record message =
  msg_author :: nat
  msg_content :: string
  msg_guild :: "guild option"

record bot_state =
  bot_user :: nat
  bot_guilds :: "guild list"
  bot_latency :: pyfloat

text \<open>The invocation context of a command; \<open>ctx.guild\<close> is the message's guild.\<close>

record ctx =
  ctx_message :: message

definition ctx_guild :: "ctx \<Rightarrow> guild option" where
  "ctx_guild c = msg_guild (ctx_message c)"

subsection \<open>Replies\<close>

datatype colour = Blue | Green

record embed_field =
  fld_name :: string
  fld_value :: string
  fld_inline :: bool

record embed =
  emb_title :: string
  emb_description :: string
  emb_colour :: colour
  emb_thumbnail :: "string option"
  emb_fields :: "embed_field list"

text \<open>
  What a handler sends to the channel of the invoking message. Every send of \<open>bot.py\<close>
  goes to that channel, so a run of a handler is the list of its payloads, in order.
\<close>

datatype reply = PlainText string | StructuredEmbed embed

definition Embed :: "string \<Rightarrow> string \<Rightarrow> colour \<Rightarrow> embed" where
  "Embed t d c =
     \<lparr>emb_title = t, emb_description = d, emb_colour = c, emb_thumbnail = None, emb_fields = []\<rparr>"

definition set_thumbnail :: "string option \<Rightarrow> embed \<Rightarrow> embed" where
  "set_thumbnail u e = e\<lparr>emb_thumbnail := u\<rparr>"

text \<open>\<open>add_field\<close> appends a field; the library stores \<open>str(value)\<close>.\<close>

definition add_field :: "string \<Rightarrow> string \<Rightarrow> bool \<Rightarrow> embed \<Rightarrow> embed" where
  "add_field n v i e =
     e\<lparr>emb_fields := emb_fields e @ [\<lparr>fld_name = n, fld_value = v, fld_inline = i\<rparr>]\<rparr>"

definition str_optional_nat :: "nat option \<Rightarrow> string" where
  "str_optional_nat v = (case v of None \<Rightarrow> ''None'' | Some n \<Rightarrow> str_nat n)"

text \<open>\<open>strftime("%Y-%m-%d")\<close>, the year written with four digits.\<close>

definition pad4 :: "nat \<Rightarrow> string" where
  "pad4 n = replicate (4 - length (str_nat n)) CHR ''0'' @ str_nat n"

definition strftime_Ymd :: "datetime \<Rightarrow> string" where
  "strftime_Ymd d = pad4 (dt_year d) @ ''-'' @ pad2 (dt_month d) @ ''-'' @ pad2 (dt_day d)"

section \<open>The command handlers of bot.py\<close>

text \<open>
  A handler returns \<open>Inr\<close> of the payloads it sent, or \<open>Inl\<close> of the exception it
  raised; every raise of these handlers comes before their one send.
\<close>

definition ping :: "ctx \<Rightarrow> py_exn + reply list" where
  "ping c = Inr [PlainText ''Pong!'']"

definition info :: "bot_state \<Rightarrow> ctx \<Rightarrow> py_exn + reply list" where
  "info b c =
     (let embed0 = Embed ''Bot Information'' ''A simple Discord bot created with discord.py'' Blue;
          embed1 = add_field ''Servers'' (str_nat (length (bot_guilds b))) True embed0
      in case py_round (float_mul (bot_latency b) (float_of_int 1000)) of
           Inl x \<Rightarrow> Inl x
         | Inr ms \<Rightarrow> Inr [StructuredEmbed (add_field ''Latency'' (str_int ms @ ''ms'') True embed1)])"

definition greet :: "ctx \<Rightarrow> string \<Rightarrow> py_exn + reply list" where
  "greet c name = Inr [PlainText (''Hello, '' @ name @ ''! '' @ waving_hand)]"

definition add :: "ctx \<Rightarrow> int \<Rightarrow> int \<Rightarrow> py_exn + reply list" where
  "add c num1 num2 =
     (let result = num1 + num2
      in Inr [PlainText (str_int num1 @ '' + '' @ str_int num2 @ '' = '' @ str_int result)])"

definition divide :: "ctx \<Rightarrow> pyfloat \<Rightarrow> pyfloat \<Rightarrow> py_exn + reply list" where
  "divide c num1 num2 =
     (if float_eq_int num2 0 then Inr [PlainText ''Error: Cannot divide by zero!'']
      else (case py_truediv num1 num2 of
              Inl x \<Rightarrow> Inl x
            | Inr result \<Rightarrow>
                Inr [PlainText (float_repr num1 @ '' '' @ division_sign @ '' '' @ float_repr num2
                                @ '' = '' @ format_2f result)]))"

text \<open>
  The errors the command framework hands to an error handler, by the class
  \<open>isinstance\<close> tests: the two binding errors with the parameter they name, and the
  other kinds a command can fail with.
\<close>

datatype command_error =
    MissingRequiredArgument string
  | BadArgument string
  | TooManyArguments
  | ArgumentParsingError
  | CheckFailure
  | DisabledCommand
  | CommandOnCooldown
  | CommandInvokeError py_exn

fun divide_error :: "ctx \<Rightarrow> command_error \<Rightarrow> reply list" where
  "divide_error c (MissingRequiredArgument p) =
     [PlainText ''Please provide two numbers: !divide <num1> <num2>'']"
| "divide_error c (BadArgument p) = [PlainText ''Please provide valid numbers!'']"
| "divide_error c e = []"

definition serverinfo :: "ctx \<Rightarrow> py_exn + reply list" where
  "serverinfo c =
     (case ctx_guild c of
        None \<Rightarrow> Inl AttributeError
      | Some g \<Rightarrow>
          (let embed0 = Embed (guild_name g) (''Server information for '' @ guild_name g) Green;
               embed1 = set_thumbnail (guild_icon_url g) embed0;
               embed2 = add_field ''Server ID'' (str_nat (guild_id g)) True embed1
           in case guild_owner g of
                None \<Rightarrow> Inl AttributeError
              | Some ow \<Rightarrow>
                  (let embed3 = add_field ''Owner'' (member_mention ow) True embed2;
                       embed4 = add_field ''Members''
                                  (str_optional_nat (guild_member_count g)) True embed3;
                       embed5 = add_field ''Created At''
                                  (strftime_Ymd (guild_created_at g)) True embed4
                   in Inr [StructuredEmbed embed5])))"

section \<open>The command framework\<close>

text \<open>
  Modelled from the spec: the gateway library's command framework (the \<open>commands.Bot\<close>
  behind \<open>bot.command\<close>, \<open>divide.error\<close> and \<open>bot.process_commands\<close>) is not among the
  sources. The definitions of this section follow section 4.1 of the specification,
  steps 3 to 6: a registry of commands with typed parameters, binding of the
  whitespace-separated argument tokens in declared order, dispatch, and delivery of a
  failure to the command's error handler when it has one and to nobody otherwise. A
  handler that raises is delivered to the same place as \<open>CommandInvokeError\<close>.
\<close>

datatype param_type = TStr | TInt | TFloat

datatype arg_value = VStr string | VInt int | VFloat pyfloat

record command =
  cmd_name :: string
  cmd_params :: "(string \<times> param_type) list"
  cmd_callback :: "bot_state \<Rightarrow> ctx \<Rightarrow> arg_value list \<Rightarrow> py_exn + reply list"
  cmd_on_error :: "(ctx \<Rightarrow> command_error \<Rightarrow> reply list) option"

fun convert :: "param_type \<Rightarrow> string \<Rightarrow> arg_value option" where
  "convert TStr tok = Some (VStr tok)"
| "convert TInt tok = map_option VInt (py_int tok)"
| "convert TFloat tok = map_option VFloat (py_float tok)"

fun bind_args :: "(string \<times> param_type) list \<Rightarrow> string list \<Rightarrow> command_error + arg_value list" where
  "bind_args [] toks = Inr []"
| "bind_args ((p, ty) # ps) [] = Inl (MissingRequiredArgument p)"
| "bind_args ((p, ty) # ps) (tok # toks) =
     (case convert ty tok of
        None \<Rightarrow> Inl (BadArgument p)
      | Some v \<Rightarrow> (case bind_args ps toks of Inl e \<Rightarrow> Inl e | Inr vs \<Rightarrow> Inr (v # vs)))"

text \<open>
  How each decorated function of \<open>bot.py\<close> is called with the bound values. The last
  equation of each is the call with arguments of another shape, which binding rules out.
\<close>

fun ping_callback :: "bot_state \<Rightarrow> ctx \<Rightarrow> arg_value list \<Rightarrow> py_exn + reply list" where
  "ping_callback b c vs = ping c"

fun info_callback :: "bot_state \<Rightarrow> ctx \<Rightarrow> arg_value list \<Rightarrow> py_exn + reply list" where
  "info_callback b c vs = info b c"

fun greet_callback :: "bot_state \<Rightarrow> ctx \<Rightarrow> arg_value list \<Rightarrow> py_exn + reply list" where
  "greet_callback b c [VStr name] = greet c name"
| "greet_callback b c vs = Inl TypeError"

fun add_callback :: "bot_state \<Rightarrow> ctx \<Rightarrow> arg_value list \<Rightarrow> py_exn + reply list" where
  "add_callback b c [VInt num1, VInt num2] = add c num1 num2"
| "add_callback b c vs = Inl TypeError"

fun divide_callback :: "bot_state \<Rightarrow> ctx \<Rightarrow> arg_value list \<Rightarrow> py_exn + reply list" where
  "divide_callback b c [VFloat num1, VFloat num2] = divide c num1 num2"
| "divide_callback b c vs = Inl TypeError"

fun serverinfo_callback :: "bot_state \<Rightarrow> ctx \<Rightarrow> arg_value list \<Rightarrow> py_exn + reply list" where
  "serverinfo_callback b c vs = serverinfo c"

text \<open>The commands \<open>bot.py\<close> registers, in the order of the file.\<close>

definition ping_command :: command where
  "ping_command = \<lparr>cmd_name = ''ping'', cmd_params = [],
     cmd_callback = ping_callback, cmd_on_error = None\<rparr>"

definition info_command :: command where
  "info_command = \<lparr>cmd_name = ''info'', cmd_params = [],
     cmd_callback = info_callback, cmd_on_error = None\<rparr>"

definition greet_command :: command where
  "greet_command = \<lparr>cmd_name = ''greet'', cmd_params = [(''name'', TStr)],
     cmd_callback = greet_callback, cmd_on_error = None\<rparr>"

definition add_command :: command where
  "add_command = \<lparr>cmd_name = ''add'', cmd_params = [(''num1'', TInt), (''num2'', TInt)],
     cmd_callback = add_callback, cmd_on_error = None\<rparr>"

definition divide_command :: command where
  "divide_command = \<lparr>cmd_name = ''divide'', cmd_params = [(''num1'', TFloat), (''num2'', TFloat)],
     cmd_callback = divide_callback, cmd_on_error = Some divide_error\<rparr>"

definition serverinfo_command :: command where
  "serverinfo_command = \<lparr>cmd_name = ''serverinfo'', cmd_params = [],
     cmd_callback = serverinfo_callback, cmd_on_error = None\<rparr>"

definition registry :: "command list" where
  "registry = [ping_command, info_command, greet_command, add_command, divide_command,
               serverinfo_command]"

definition get_command :: "string \<Rightarrow> command option" where
  "get_command n = find (\<lambda>c. cmd_name c = n) registry"

definition command_prefix :: char where
  "command_prefix = CHR ''!''"

definition is_space :: "char \<Rightarrow> bool" where
  "is_space c = (c = CHR '' '' \<or> (9 \<le> (of_char c :: nat) \<and> (of_char c :: nat) \<le> 13))"

text \<open>The whitespace-separated tokens of a text; \<open>cur\<close> is the token being read.\<close>

fun tokens :: "string \<Rightarrow> string \<Rightarrow> string list" where
  "tokens cur [] = (if cur = [] then [] else [cur])"
| "tokens cur (c # cs) =
     (if is_space c then (if cur = [] then tokens [] cs else cur # tokens [] cs)
      else tokens (cur @ [c]) cs)"

definition dispatch_error :: "command \<Rightarrow> ctx \<Rightarrow> command_error \<Rightarrow> reply list" where
  "dispatch_error cmd c e = (case cmd_on_error cmd of None \<Rightarrow> [] | Some h \<Rightarrow> h c e)"

definition invoke :: "command \<Rightarrow> bot_state \<Rightarrow> ctx \<Rightarrow> string list \<Rightarrow> reply list" where
  "invoke cmd b c toks =
     (case bind_args (cmd_params cmd) toks of
        Inl e \<Rightarrow> dispatch_error cmd c e
      | Inr vs \<Rightarrow>
          (case cmd_callback cmd b c vs of
             Inr sent \<Rightarrow> sent
           | Inl x \<Rightarrow> dispatch_error cmd c (CommandInvokeError x)))"

text \<open>
  The text after the prefix: the command name runs up to the first whitespace, the
  argument tokens are what follows it.
\<close>

definition invoked_with :: "string \<Rightarrow> string" where
  "invoked_with rest = takeWhile (\<lambda>x. \<not> is_space x) rest"

definition argument_tokens :: "string \<Rightarrow> string list" where
  "argument_tokens rest = tokens [] (dropWhile (\<lambda>x. \<not> is_space x) rest)"

definition process_commands :: "bot_state \<Rightarrow> message \<Rightarrow> reply list" where
  "process_commands b msg =
     (case msg_content msg of
        [] \<Rightarrow> []
      | c # rest \<Rightarrow>
          if c = command_prefix then
            (case get_command (invoked_with rest) of
               None \<Rightarrow> []
             | Some cmd \<Rightarrow> invoke cmd b \<lparr>ctx_message = msg\<rparr> (argument_tokens rest))
          else [])"

section \<open>The event handler and the start of the process\<close>

definition on_message :: "bot_state \<Rightarrow> message \<Rightarrow> reply list" where
  "on_message b msg =
     (if msg_author msg = bot_user b then []
      else (if msg_content msg = ''hello'' then [PlainText (''Hello! '' @ waving_hand)] else [])
           @ process_commands b msg)"

text \<open>
  The block under \<open>__main__\<close>, as the list of what the process does: lines printed to the
  console and the call that connects. \<open>TOKEN\<close> is \<open>os.getenv('DISCORD_TOKEN')\<close>.
\<close>

datatype startup_action = Print string | BotRun string

definition main :: "(string \<rightharpoonup> string) \<Rightarrow> startup_action list" where
  "main env =
     (case env ''DISCORD_TOKEN'' of
        None \<Rightarrow> [Print ''Error: DISCORD_TOKEN not found in environment variables.'',
                 Print ''Please create a .env file with your bot token.'']
      | Some TOKEN \<Rightarrow> [BotRun TOKEN])"

section \<open>Example inputs\<close>

text \<open>A bot with identity 1, and a direct message a user with identity 2 sends it.\<close>

definition example_bot :: bot_state where
  "example_bot = \<lparr>bot_user = 1, bot_guilds = [], bot_latency = Finite False 0 0\<rparr>"

definition user_message :: "string \<Rightarrow> message" where
  "user_message t = \<lparr>msg_author = 2, msg_content = t, msg_guild = None\<rparr>"

text \<open>A guild whose owner is known and that has no icon.\<close>

definition example_guild :: guild where
  "example_guild = \<lparr>guild_name = ''Lounge'', guild_id = 42,
     guild_owner = Some \<lparr>member_mention = ''<@7>''\<rparr>, guild_member_count = Some 12,
     guild_created_at = \<lparr>dt_year = 2021, dt_month = 3, dt_day = 9\<rparr>,
     guild_icon_url = None\<rparr>"

text \<open>A message the bot itself is the author of.\<close>

definition self_message :: "string \<Rightarrow> message" where
  "self_message t = \<lparr>msg_author = 1, msg_content = t, msg_guild = None\<rparr>"

section \<open>Facts about the values\<close>

subsection \<open>Printing an integer and reading it back\<close>

declare str_nat.simps [simp del] bit_length.simps [simp del] ilog10.simps [simp del]
  lead_zeros.simps [simp del]


lemma digit_char_is_digit: "d < 10 \<Longrightarrow> is_digit (digit_char d)"
  by (simp add: is_digit_def digit_char_def)

lemma digit_val_digit_char: "d < 10 \<Longrightarrow> digit_val (digit_char d) = d"
  by (simp add: digit_val_def digit_char_def)

lemma str_nat_digits: "\<forall>c \<in> set (str_nat n). is_digit c"
proof (induction n rule: str_nat.induct)
  case (1 n)
  show ?case
  proof (cases "n < 10")
    case True
    then show ?thesis by (subst str_nat.simps) (simp add: digit_char_is_digit)
  next
    case False
    with 1 have "\<forall>c \<in> set (str_nat (n div 10)). is_digit c" by simp
    moreover have "is_digit (digit_char (n mod 10))" by (simp add: digit_char_is_digit)
    ultimately show ?thesis using False by (subst str_nat.simps) simp
  qed
qed

lemma str_nat_nonempty: "str_nat n \<noteq> []"
  by (subst str_nat.simps) simp

lemma digitpart_all_digits:
  "\<forall>c \<in> set ds. is_digit c \<Longrightarrow> ds \<noteq> [] \<Longrightarrow>
     digitpart acc p ds = Some (foldl (\<lambda>a c. 10 * a + digit_val c) acc ds)"
proof (induction ds arbitrary: acc p)
  case Nil
  then show ?case by simp
next
  case (Cons c cs)
  show ?case
  proof (cases cs)
    case Nil
    with Cons.prems show ?thesis by simp
  next
    case (Cons c' cs')
    with Cons.IH [of "10 * acc + digit_val c" True] Cons.prems show ?thesis by simp
  qed
qed

lemma foldl_str_nat: "foldl (\<lambda>a c. 10 * a + digit_val c) 0 (str_nat n) = n"
proof (induction n rule: str_nat.induct)
  case (1 n)
  show ?case
  proof (cases "n < 10")
    case True
    then show ?thesis by (subst str_nat.simps) (simp add: digit_val_digit_char)
  next
    case False
    with 1 have "foldl (\<lambda>a c. 10 * a + digit_val c) 0 (str_nat (n div 10)) = n div 10" by simp
    then show ?thesis using False
      by (subst str_nat.simps) (simp add: digit_val_digit_char)
  qed
qed

lemma digitpart_str_nat: "digitpart 0 False (str_nat n) = Some n"
  by (simp add: digitpart_all_digits str_nat_digits str_nat_nonempty foldl_str_nat)

lemma strip_sign_str_nat: "strip_sign (str_nat n) = (False, str_nat n)"
proof (cases "str_nat n")
  case Nil
  then show ?thesis using str_nat_nonempty by simp
next
  case (Cons c cs)
  then have "is_digit c" using str_nat_digits [of n] by simp
  then have "c \<noteq> CHR ''-''" "c \<noteq> CHR ''+''" by (auto simp: is_digit_def)
  with Cons show ?thesis by simp
qed

lemma py_int_str_int: "py_int (str_int i) = Some i"
  by (cases "i < 0") (simp_all add: py_int_def str_int_def strip_sign_str_nat digitpart_str_nat)

subsection \<open>Floats: the zero test and some values\<close>

lemma float_eq_int_zero: "float_eq_int x 0 = float_is_zero x"
  by (cases x) auto

lemmas rounding_defs = round_to_double_def round_half_even_def bit_length.simps Let_def
  decimal_to_double_def

lemmas parsing_defs = py_float_def lower_char_def is_digit_def digit_val_def digits_or_empty_def
  exponent_part_def

lemma py_float_10: "py_float ''10'' = Some (Finite False 5629499534213120 (- 49))"
  by (simp add: parsing_defs rounding_defs)



lemma py_float_neg0: "py_float ''-0'' = Some (Finite True 0 0)"
  by (simp add: parsing_defs rounding_defs)

lemma py_float_000: "py_float ''0.00'' = Some (Finite False 0 0)"
  by (simp add: parsing_defs rounding_defs)

lemma py_float_x: "py_float ''x'' = None"
  by (simp add: parsing_defs rounding_defs)





section \<open>The command framework at work\<close>

lemmas command_defs = ping_command_def info_command_def greet_command_def add_command_def
  divide_command_def serverinfo_command_def

lemma get_command_add: "get_command ''add'' = Some add_command"
  by (simp add: get_command_def registry_def command_defs)

lemma get_command_divide: "get_command ''divide'' = Some divide_command"
  by (simp add: get_command_def registry_def command_defs)

lemma get_command_serverinfo: "get_command ''serverinfo'' = Some serverinfo_command"
  by (simp add: get_command_def registry_def command_defs)

lemma get_command_None: "n \<notin> cmd_name ` set registry \<Longrightarrow> get_command n = None"
  by (auto simp: get_command_def find_None_iff)

lemma hello_not_prefixed: "command_prefix # rest \<noteq> ''hello''"
  by (simp add: command_prefix_def)

lemma on_message_prefixed:
  assumes "msg_author msg \<noteq> bot_user b" and "msg_content msg = command_prefix # rest"
  shows "on_message b msg =
     (case get_command (invoked_with rest) of
        None \<Rightarrow> []
      | Some cmd \<Rightarrow> invoke cmd b \<lparr>ctx_message = msg\<rparr> (argument_tokens rest))"
  using assms by (simp add: on_message_def process_commands_def command_prefix_def)

lemma invoke_add:
  assumes "py_int t1 = Some a" and "py_int t2 = Some b"
  shows "invoke add_command bs c (t1 # t2 # rest) = 
     [PlainText (str_int a @ '' + '' @ str_int b @ '' = '' @ str_int (a + b))]"
  using assms by (simp add: invoke_def add_command_def add_def)

lemma bind_add_bad_first:
  assumes "py_int t1 = None"
  shows "bind_args (cmd_params add_command) (t1 # toks) = Inl (BadArgument ''num1'')"
  using assms by (simp add: add_command_def)

lemma invoke_add_bad_first:
  assumes "py_int t1 = None"
  shows "invoke add_command bs c (t1 # toks) = []"
  using assms by (simp add: invoke_def add_command_def dispatch_error_def)

lemma name_add: "invoked_with ''add 2 3'' = ''add''" by code_simp
lemma args_add: "argument_tokens ''add 2 3'' = [''2'', ''3'']" by code_simp
lemma name_add_foo: "invoked_with ''add foo 3'' = ''add''" by code_simp
lemma args_add_foo: "argument_tokens ''add foo 3'' = [''foo'', ''3'']" by code_simp
lemma py_int_2: "py_int ''2'' = Some 2" by code_simp
lemma py_int_3: "py_int ''3'' = Some 3" by code_simp
lemma py_int_foo: "py_int ''foo'' = None" by code_simp
lemma text_2_3_5: "str_int 2 @ '' + '' @ str_int 3 @ '' = '' @ str_int (2 + 3) = ''2 + 3 = 5''" by code_simp

lemma add_2_3:
  assumes "msg_author msg \<noteq> bot_user b" and "msg_content msg = ''!add 2 3''"
  shows "on_message b msg = [PlainText ''2 + 3 = 5'']"
proof -
  have "msg_content msg = command_prefix # ''add 2 3''"
    using assms(2) by (simp add: command_prefix_def)
  from on_message_prefixed [OF assms(1) this]
  have "on_message b msg = invoke add_command b \<lparr>ctx_message = msg\<rparr> [''2'', ''3'']"
    by (simp only: name_add args_add get_command_add option.case)
  also have "\<dots> = [PlainText (str_int 2 @ '' + '' @ str_int 3 @ '' = '' @ str_int (2 + 3))]"
    by (rule invoke_add [OF py_int_2 py_int_3])
  finally show ?thesis by (simp only: text_2_3_5)
qed

lemma add_foo_3:
  assumes "msg_author msg \<noteq> bot_user b" and "msg_content msg = ''!add foo 3''"
  shows "on_message b msg = []"
proof -
  have "msg_content msg = command_prefix # ''add foo 3''"
    using assms(2) by (simp add: command_prefix_def)
  from on_message_prefixed [OF assms(1) this]
  have "on_message b msg = invoke add_command b \<lparr>ctx_message = msg\<rparr> [''foo'', ''3'']"
    by (simp only: name_add_foo args_add_foo get_command_add option.case)
  then show ?thesis by (simp only: invoke_add_bad_first [OF py_int_foo])
qed

subsection \<open>The divide command\<close>

lemma on_message_invokes:
  assumes "msg_author msg \<noteq> bot_user b" and "msg_content msg = command_prefix # rest"
    and "get_command (invoked_with rest) = Some cmd"
  shows "on_message b msg = invoke cmd b \<lparr>ctx_message = msg\<rparr> (argument_tokens rest)"
  using on_message_prefixed [OF assms(1,2)] assms(3) by simp

lemma divide_total:
  "divide c a b =
     Inr (if float_is_zero b then [PlainText ''Error: Cannot divide by zero!'']
          else [PlainText (float_repr a @ '' '' @ division_sign @ '' '' @ float_repr b
                           @ '' = '' @ format_2f (float_div a b))])"
  by (simp add: divide_def float_eq_int_zero py_truediv_def)

lemma invoke_divide:
  assumes "py_float t1 = Some a" and "py_float t2 = Some b"
  shows "invoke divide_command bs c (t1 # t2 # rest) =
     (if float_is_zero b then [PlainText ''Error: Cannot divide by zero!'']
      else [PlainText (float_repr a @ '' '' @ division_sign @ '' '' @ float_repr b
                       @ '' = '' @ format_2f (float_div a b))])"
  using assms by (simp add: invoke_def divide_command_def divide_total)

lemma invoke_divide_missing_second:
  assumes "py_float t1 = Some a"
  shows "invoke divide_command bs c [t1] =
     [PlainText ''Please provide two numbers: !divide <num1> <num2>'']"
  using assms by (simp add: invoke_def divide_command_def dispatch_error_def)

lemma invoke_divide_missing_both:
  "invoke divide_command bs c [] = [PlainText ''Please provide two numbers: !divide <num1> <num2>'']"
  by (simp add: invoke_def divide_command_def dispatch_error_def)

lemma invoke_divide_bad_first:
  assumes "py_float t1 = None"
  shows "invoke divide_command bs c (t1 # toks) = [PlainText ''Please provide valid numbers!'']"
  using assms by (simp add: invoke_def divide_command_def dispatch_error_def)



lemma name_divide_10_neg0: "invoked_with ''divide 10 -0'' = ''divide''" by code_simp
lemma args_divide_10_neg0: "argument_tokens ''divide 10 -0'' = [''10'', ''-0'']" by code_simp
lemma name_divide_10_000: "invoked_with ''divide 10 0.00'' = ''divide''" by code_simp
lemma args_divide_10_000: "argument_tokens ''divide 10 0.00'' = [''10'', ''0.00'']" by code_simp
lemma name_divide_10: "invoked_with ''divide 10'' = ''divide''" by code_simp
lemma args_divide_10: "argument_tokens ''divide 10'' = [''10'']" by code_simp
lemma name_frobnicate: "invoked_with ''frobnicate'' = ''frobnicate''" by code_simp
lemma name_serverinfo: "invoked_with ''serverinfo'' = ''serverinfo''" by code_simp

lemma prefixed: "CHR ''!'' # rest = command_prefix # rest"
  by (simp add: command_prefix_def)


lemma divide_10_zero:
  assumes "msg_author msg \<noteq> bot_user b" and "msg_content msg = command_prefix # rest"
    and "invoked_with rest = ''divide''" and "argument_tokens rest = [''10'', z]"
    and "py_float z = Some (Finite s 0 0)"
  shows "on_message b msg = [PlainText ''Error: Cannot divide by zero!'']"
proof -
  have "on_message b msg = invoke divide_command b \<lparr>ctx_message = msg\<rparr> [''10'', z]"
    using on_message_invokes [OF assms(1,2), of divide_command] assms(3,4)
    by (simp add: get_command_divide)
  then show ?thesis
    by (simp add: invoke_divide [OF py_float_10 assms(5)])
qed

lemma divide_10_only:
  assumes "msg_author msg \<noteq> bot_user b" and "msg_content msg = ''!divide 10''"
  shows "on_message b msg = [PlainText ''Please provide two numbers: !divide <num1> <num2>'']"
proof -
  have "msg_content msg = command_prefix # ''divide 10''"
    using assms(2) by (simp add: command_prefix_def)
  then have "on_message b msg = invoke divide_command b \<lparr>ctx_message = msg\<rparr> [''10'']"
    using on_message_invokes [OF assms(1), of "''divide 10''" divide_command]
    by (simp only: name_divide_10 args_divide_10 get_command_divide)
  then show ?thesis
    by (simp add: invoke_divide_missing_second [OF py_float_10])
qed

subsection \<open>The registry, unprefixed text and the serverinfo command\<close>

lemma registry_names:
  "cmd_name ` set registry = {''ping'', ''info'', ''greet'', ''add'', ''divide'', ''serverinfo''}"
  by (auto simp: registry_def command_defs)


lemma serverinfo_in_guild:
  assumes "ctx_guild c = Some g" and "guild_owner g = Some ow"
  shows "serverinfo c = Inr [StructuredEmbed
     \<lparr>emb_title = guild_name g,
      emb_description = ''Server information for '' @ guild_name g,
      emb_colour = Green,
      emb_thumbnail = guild_icon_url g,
      emb_fields =
        [\<lparr>fld_name = ''Server ID'', fld_value = str_nat (guild_id g), fld_inline = True\<rparr>,
         \<lparr>fld_name = ''Owner'', fld_value = member_mention ow, fld_inline = True\<rparr>,
         \<lparr>fld_name = ''Members'', fld_value = str_optional_nat (guild_member_count g),
          fld_inline = True\<rparr>,
         \<lparr>fld_name = ''Created At'', fld_value = strftime_Ymd (guild_created_at g),
          fld_inline = True\<rparr>]\<rparr>]"
  using assms by (simp add: serverinfo_def Embed_def set_thumbnail_def add_field_def)

lemma example_created_at: "strftime_Ymd (guild_created_at example_guild) = ''2021-03-09''"
  by code_simp

lemma example_member_count: "str_optional_nat (guild_member_count example_guild) = ''12''"
  by code_simp

section \<open>The claims\<close>

text \<open>
  C1. For every pair of integers bound to its two parameters, \<open>add\<close> sends exactly the text
  of the first number, \<open>+\<close>, the second number, \<open>=\<close> and their sum, and the number
  printed last reads back as the exact integer sum. Two argument tokens that \<open>int\<close> accepts
  are bound and give that reply; a first token of printable ASCII characters that \<open>int\<close>
  rejects gives the binding error \<open>BadArgument\<close> on \<open>num1\<close> and no reply, because \<open>add\<close>
  has no error handler. In particular \<open>!add 2 3\<close> is answered by \<open>2 + 3 = 5\<close>, and
  \<open>!add foo 3\<close> fails to bind with \<open>BadArgument\<close> on \<open>num1\<close> and is answered by nothing.
\<close>

theorem add_replies_exact_sum:
  "add c a b = Inr [PlainText (str_int a @ '' + '' @ str_int b @ '' = '' @ str_int (a + b))]
   \<and> py_int (str_int (a + b)) = Some (a + b)
   \<and> (py_int t1 = Some a \<longrightarrow> py_int t2 = Some b \<longrightarrow>
        invoke add_command bs c (t1 # t2 # rest) =
          [PlainText (str_int a @ '' + '' @ str_int b @ '' = '' @ str_int (a + b))])
   \<and> (ascii_token t1 \<longrightarrow> py_int t1 = None \<longrightarrow>
        bind_args (cmd_params add_command) (t1 # toks) = Inl (BadArgument ''num1'')
        \<and> invoke add_command bs c (t1 # toks) = [])
   \<and> cmd_on_error add_command = None
   \<and> bind_args (cmd_params add_command) (argument_tokens ''add foo 3'')
       = Inl (BadArgument ''num1'')
   \<and> (msg_author msg \<noteq> bot_user bs \<longrightarrow> msg_content msg = ''!add 2 3'' \<longrightarrow>
        on_message bs msg = [PlainText ''2 + 3 = 5''])
   \<and> (msg_author msg \<noteq> bot_user bs \<longrightarrow> msg_content msg = ''!add foo 3'' \<longrightarrow>
        on_message bs msg = [])"
proof (intro conjI impI)
  show "add c a b = Inr [PlainText (str_int a @ '' + '' @ str_int b @ '' = '' @ str_int (a + b))]"
    by (simp add: add_def)
  show "py_int (str_int (a + b)) = Some (a + b)"
    by (rule py_int_str_int)
  show "cmd_on_error add_command = None"
    by (simp add: add_command_def)
  show "bind_args (cmd_params add_command) (argument_tokens ''add foo 3'')
      = Inl (BadArgument ''num1'')"
    unfolding args_add_foo by (rule bind_add_bad_first [OF py_int_foo])
next
  assume "py_int t1 = Some a" and "py_int t2 = Some b"
  then show "invoke add_command bs c (t1 # t2 # rest) =
      [PlainText (str_int a @ '' + '' @ str_int b @ '' = '' @ str_int (a + b))]"
    by (rule invoke_add)
next
  assume "py_int t1 = None"
  then show "bind_args (cmd_params add_command) (t1 # toks) = Inl (BadArgument ''num1'')"
    and "invoke add_command bs c (t1 # toks) = []"
    by (rule bind_add_bad_first, rule invoke_add_bad_first)
next
  assume "msg_author msg \<noteq> bot_user bs" and "msg_content msg = ''!add 2 3''"
  then show "on_message bs msg = [PlainText ''2 + 3 = 5'']"
    by (rule add_2_3)
next
  assume "msg_author msg \<noteq> bot_user bs" and "msg_content msg = ''!add foo 3''"
  then show "on_message bs msg = []"
    by (rule add_foo_3)
qed

theorem add_replies_exact_sum_witness:
  "invoke add_command example_bot \<lparr>ctx_message = user_message ''!add 2 3''\<rparr> [''2'', ''3'']
     = [PlainText ''2 + 3 = 5'']
   \<and> ascii_token ''foo'' \<and> py_int ''foo'' = None
   \<and> invoke add_command example_bot \<lparr>ctx_message = user_message ''!add foo 3''\<rparr>
       [''foo'', ''3''] = []
   \<and> bind_args (cmd_params add_command) [''foo'', ''3''] = Inl (BadArgument ''num1'')
   \<and> on_message example_bot (user_message ''!add 2 3'') = [PlainText ''2 + 3 = 5'']
   \<and> on_message example_bot (user_message ''!add foo 3'') = []"
proof -
  note ok = add_replies_exact_sum [of "\<lparr>ctx_message = user_message ''!add 2 3''\<rparr>" 2 3 "''2''" "''3''"
      example_bot "[]" "[]" "user_message ''!add 2 3''"]
  note bad = add_replies_exact_sum [of "\<lparr>ctx_message = user_message ''!add foo 3''\<rparr>" 2 3 "''foo''" "''3''"
      example_bot "[]" "[''3'']" "user_message ''!add foo 3''"]
  have ids: "msg_author (user_message t) \<noteq> bot_user example_bot"
    "msg_content (user_message t) = t" for t
    by (simp_all add: user_message_def example_bot_def)
  have ascii: "ascii_token ''foo''"
    by (simp add: ascii_token_def)
  from ok ids py_int_2 py_int_3 text_2_3_5 bad py_int_foo ascii show ?thesis by simp
qed



text \<open>
  C3. Among the registered commands, \<open>divide\<close> and only \<open>divide\<close> has an error handler of
  its own. That handler answers \<open>MissingRequiredArgument\<close> with the usage hint and
  \<open>BadArgument\<close> with the request for valid numbers; so a \<open>divide\<close> with no token, or with
  one token that \<open>float\<close> accepts, is answered by the usage hint (as \<open>!divide 10\<close> is), and
  one whose first token is of printable ASCII characters and rejected by \<open>float\<close> is
  answered by the request for valid numbers.
\<close>

theorem only_divide_has_error_handler:
  "(\<forall>cmd \<in> set registry. (cmd_on_error cmd \<noteq> None) = (cmd_name cmd = ''divide''))
   \<and> get_command ''divide'' = Some divide_command
   \<and> cmd_on_error divide_command = Some divide_error
   \<and> divide_error c (MissingRequiredArgument p)
       = [PlainText ''Please provide two numbers: !divide <num1> <num2>'']
   \<and> divide_error c (BadArgument p) = [PlainText ''Please provide valid numbers!'']
   \<and> invoke divide_command bs c [] = [PlainText ''Please provide two numbers: !divide <num1> <num2>'']
   \<and> (py_float t1 = Some a \<longrightarrow>
        bind_args (cmd_params divide_command) [t1] = Inl (MissingRequiredArgument ''num2'')
        \<and> invoke divide_command bs c [t1]
            = [PlainText ''Please provide two numbers: !divide <num1> <num2>''])
   \<and> (ascii_token t1 \<longrightarrow> py_float t1 = None \<longrightarrow>
        bind_args (cmd_params divide_command) (t1 # toks) = Inl (BadArgument ''num1'')
        \<and> invoke divide_command bs c (t1 # toks) = [PlainText ''Please provide valid numbers!''])
   \<and> (msg_author msg \<noteq> bot_user bs \<longrightarrow> msg_content msg = ''!divide 10'' \<longrightarrow>
        on_message bs msg = [PlainText ''Please provide two numbers: !divide <num1> <num2>''])"
proof (intro conjI impI)
  show "\<forall>cmd \<in> set registry. (cmd_on_error cmd \<noteq> None) = (cmd_name cmd = ''divide'')"
    by (simp add: registry_def command_defs)
  show "get_command ''divide'' = Some divide_command"
    by (rule get_command_divide)
  show "cmd_on_error divide_command = Some divide_error"
    by (simp add: divide_command_def)
  show "divide_error c (MissingRequiredArgument p)
      = [PlainText ''Please provide two numbers: !divide <num1> <num2>'']"
    by simp
  show "divide_error c (BadArgument p) = [PlainText ''Please provide valid numbers!'']"
    by simp
  show "invoke divide_command bs c [] = [PlainText ''Please provide two numbers: !divide <num1> <num2>'']"
    by (rule invoke_divide_missing_both)
next
  assume "py_float t1 = Some a"
  then show "bind_args (cmd_params divide_command) [t1] = Inl (MissingRequiredArgument ''num2'')"
    and "invoke divide_command bs c [t1]
      = [PlainText ''Please provide two numbers: !divide <num1> <num2>'']"
    by (simp add: divide_command_def, rule invoke_divide_missing_second)
next
  assume "py_float t1 = None"
  then show "bind_args (cmd_params divide_command) (t1 # toks) = Inl (BadArgument ''num1'')"
    and "invoke divide_command bs c (t1 # toks) = [PlainText ''Please provide valid numbers!'']"
    by (simp add: divide_command_def, rule invoke_divide_bad_first)
next
  assume "msg_author msg \<noteq> bot_user bs" and "msg_content msg = ''!divide 10''"
  then show "on_message bs msg = [PlainText ''Please provide two numbers: !divide <num1> <num2>'']"
    by (rule divide_10_only)
qed

theorem only_divide_has_error_handler_witness:
  "cmd_on_error divide_command \<noteq> None \<and> cmd_on_error add_command = None
   \<and> ascii_token ''x'' \<and> py_float ''x'' = None
   \<and> invoke divide_command example_bot \<lparr>ctx_message = user_message ''!divide 10''\<rparr> [''10'']
       = [PlainText ''Please provide two numbers: !divide <num1> <num2>'']
   \<and> invoke divide_command example_bot \<lparr>ctx_message = user_message ''!divide x''\<rparr> [''x'']
       = [PlainText ''Please provide valid numbers!'']
   \<and> on_message example_bot (user_message ''!divide 10'')
       = [PlainText ''Please provide two numbers: !divide <num1> <num2>'']"
proof -
  note miss = only_divide_has_error_handler [of "\<lparr>ctx_message = user_message ''!divide 10''\<rparr>"
      "''num2''" example_bot "''10''" "Finite False 5629499534213120 (- 49)" "[]"
      "user_message ''!divide 10''"]
  note bad = only_divide_has_error_handler [of "\<lparr>ctx_message = user_message ''!divide x''\<rparr>"
      "''num1''" example_bot "''x''" "Finite False 0 0" "[]" "user_message ''!divide 10''"]
  have members: "divide_command \<in> set registry" "add_command \<in> set registry"
    by (simp_all add: registry_def)
  have names: "cmd_name divide_command = ''divide''" "cmd_name add_command \<noteq> ''divide''"
    by (simp_all add: command_defs)
  have ids: "msg_author (user_message t) \<noteq> bot_user example_bot"
    "msg_content (user_message t) = t" for t
    by (simp_all add: user_message_def example_bot_def)
  have ascii: "ascii_token ''x''"
    by (simp add: ascii_token_def)
  from miss have "cmd_on_error add_command = None"
    using members(2) names(2) by blast
  with miss bad ids py_float_10 py_float_x ascii show ?thesis by simp
qed

text \<open>
  C4. A message whose author is the bot's own identity produces no reply at all, whatever
  its content: neither the greeting nor anything from command processing.
\<close>

theorem self_message_no_reply:
  "msg_author msg = bot_user bs \<Longrightarrow> on_message bs msg = []"
  by (simp add: on_message_def)

theorem self_message_no_reply_witness:
  "on_message example_bot (self_message ''hello'') = []
   \<and> on_message example_bot (self_message ''!ping'') = []"
proof -
  have "msg_author (self_message t) = bot_user example_bot" for t
    by (simp add: self_message_def example_bot_def)
  then show ?thesis
    using self_message_no_reply [of "self_message ''hello''" example_bot]
      self_message_no_reply [of "self_message ''!ping''" example_bot]
    by simp
qed



text \<open>
  C6. At startup, when the environment holds no \<open>DISCORD_TOKEN\<close>, the program prints its
  two fixed lines and does nothing else: it never calls \<open>bot.run\<close>. When the token is
  present, the one thing it does is call \<open>bot.run\<close> with it.
\<close>

theorem missing_token_does_not_connect:
  "(env ''DISCORD_TOKEN'' = None \<longrightarrow>
      main env = [Print ''Error: DISCORD_TOKEN not found in environment variables.'',
                  Print ''Please create a .env file with your bot token.'']
      \<and> (\<forall>t. BotRun t \<notin> set (main env)))
   \<and> (env ''DISCORD_TOKEN'' = Some tok \<longrightarrow> main env = [BotRun tok])"
  by (simp add: main_def)

theorem missing_token_does_not_connect_witness:
  "main Map.empty = [Print ''Error: DISCORD_TOKEN not found in environment variables.'',
                     Print ''Please create a .env file with your bot token.'']
   \<and> BotRun ''abc'' \<notin> set (main Map.empty)
   \<and> main [''DISCORD_TOKEN'' \<mapsto> ''abc''] = [BotRun ''abc'']"
  using missing_token_does_not_connect [of Map.empty "''abc''"]
    missing_token_does_not_connect [of "[''DISCORD_TOKEN'' \<mapsto> ''abc'']" "''abc''"]
  by simp

text \<open>
  C7. A prefixed message of another author whose command name is not the name of a
  registered command produces no reply; handling it returns normally, with the empty
  list of replies.
\<close>

theorem unknown_command_ignored:
  assumes "msg_author msg \<noteq> bot_user bs"
    and "msg_content msg = command_prefix # rest"
    and "invoked_with rest \<notin> cmd_name ` set registry"
  shows "on_message bs msg = []"
proof -
  have "get_command (invoked_with rest) = None"
    using assms(3) by (rule get_command_None)
  with on_message_prefixed [OF assms(1,2)] show ?thesis by simp
qed

theorem unknown_command_ignored_witness:
  "on_message example_bot (user_message ''!frobnicate'') = []"
proof (rule unknown_command_ignored [where rest = "''frobnicate''"])
  show "msg_author (user_message ''!frobnicate'') \<noteq> bot_user example_bot"
    by (simp add: user_message_def example_bot_def)
  show "msg_content (user_message ''!frobnicate'') = command_prefix # ''frobnicate''"
    by (simp add: user_message_def command_prefix_def)
  show "invoked_with ''frobnicate'' \<notin> cmd_name ` set registry"
    by (simp add: name_frobnicate registry_names)
qed

text \<open>
  C8. \<open>serverinfo\<close> reads \<open>guild.name\<close> and \<open>guild.owner.mention\<close> without a test, though it
  tests \<open>guild.icon\<close>. In a direct message (\<open>ctx.guild\<close> is \<open>None\<close>), and in a guild whose
  owner is not among the cached members (\<open>guild.owner\<close> is \<open>None\<close>), the handler raises
  \<open>AttributeError\<close> before it sends anything, and the message gets no reply. Where the guild
  and its owner are present the reply is the embed of \<open>serverinfo_in_guild\<close>.
\<close>

theorem serverinfo_raises_without_guild_or_owner:
  "serverinfo \<lparr>ctx_message = user_message ''!serverinfo''\<rparr> = Inl AttributeError
   \<and> on_message example_bot (user_message ''!serverinfo'') = []
   \<and> serverinfo \<lparr>ctx_message = (user_message ''!serverinfo'')
        \<lparr>msg_guild := Some (example_guild\<lparr>guild_owner := None\<rparr>)\<rparr>\<rparr> = Inl AttributeError
   \<and> on_message example_bot ((user_message ''!serverinfo'')
        \<lparr>msg_guild := Some (example_guild\<lparr>guild_owner := None\<rparr>)\<rparr>) = []"
proof -
  have raise: "serverinfo \<lparr>ctx_message = m\<rparr> = Inl AttributeError \<Longrightarrow>
      invoke serverinfo_command b \<lparr>ctx_message = m\<rparr> toks = []" for m b toks
    by (simp add: invoke_def serverinfo_command_def dispatch_error_def)
  have dm: "serverinfo \<lparr>ctx_message = user_message ''!serverinfo''\<rparr> = Inl AttributeError"
    by (simp add: serverinfo_def ctx_guild_def user_message_def)
  have ow: "serverinfo \<lparr>ctx_message = (user_message ''!serverinfo'')
      \<lparr>msg_guild := Some (example_guild\<lparr>guild_owner := None\<rparr>)\<rparr>\<rparr> = Inl AttributeError"
    by (simp add: serverinfo_def ctx_guild_def user_message_def Let_def)
  have run: "on_message example_bot m = invoke serverinfo_command example_bot
      \<lparr>ctx_message = m\<rparr> (argument_tokens ''serverinfo'')"
    if "msg_author m = 2" and "msg_content m = ''!serverinfo''" for m
    by (rule on_message_invokes [where rest = "''serverinfo''"])
       (simp_all add: that example_bot_def command_prefix_def name_serverinfo
          get_command_serverinfo)
  have "on_message example_bot (user_message ''!serverinfo'') =
      invoke serverinfo_command example_bot \<lparr>ctx_message = user_message ''!serverinfo''\<rparr>
        (argument_tokens ''serverinfo'')"
    by (rule run) (simp_all add: user_message_def)
  then have "on_message example_bot (user_message ''!serverinfo'') = []"
    by (simp only: raise [OF dm])
  moreover have "on_message example_bot ((user_message ''!serverinfo'')
      \<lparr>msg_guild := Some (example_guild\<lparr>guild_owner := None\<rparr>)\<rparr>) =
      invoke serverinfo_command example_bot \<lparr>ctx_message = (user_message ''!serverinfo'')
        \<lparr>msg_guild := Some (example_guild\<lparr>guild_owner := None\<rparr>)\<rparr>\<rparr>
        (argument_tokens ''serverinfo'')"
    by (rule run) (simp_all add: user_message_def)
  then have "on_message example_bot ((user_message ''!serverinfo'')
      \<lparr>msg_guild := Some (example_guild\<lparr>guild_owner := None\<rparr>)\<rparr>) = []"
    by (simp only: raise [OF ow])
  ultimately show ?thesis using dm ow by simp
qed

text \<open>
  C9. \<open>divide\<close> never raises: the division is reached only when the second argument
  differs from zero, and a float division raises \<open>ZeroDivisionError\<close> only when its divisor
  is a zero. Whenever the division would raise, and whenever the second argument is a
  zero of either sign, \<open>divide\<close> sends the fixed divide-by-zero text instead. The tokens
  \<open>-0\<close> and \<open>0.00\<close> are read as zeros, so \<open>!divide 10 -0\<close> and \<open>!divide 10 0.00\<close> get that
  text.
\<close>

theorem divide_never_divides_by_zero:
  "(\<exists>sent. divide c num1 num2 = Inr sent)
   \<and> (py_truediv num1 num2 = Inl ZeroDivisionError \<longrightarrow>
        divide c num1 num2 = Inr [PlainText ''Error: Cannot divide by zero!''])
   \<and> (float_is_zero num2 \<longrightarrow>
        float_eq_int num2 0
        \<and> divide c num1 num2 = Inr [PlainText ''Error: Cannot divide by zero!''])
   \<and> (py_float t1 = Some num1 \<longrightarrow> py_float t2 = Some num2 \<longrightarrow> float_is_zero num2 \<longrightarrow>
        invoke divide_command bs c (t1 # t2 # rest) = [PlainText ''Error: Cannot divide by zero!''])
   \<and> py_float ''-0'' = Some (Finite True 0 0) \<and> float_is_zero (Finite True 0 0)
   \<and> py_float ''0.00'' = Some (Finite False 0 0) \<and> float_is_zero (Finite False 0 0)
   \<and> (msg_author msg \<noteq> bot_user bs \<longrightarrow> msg_content msg = ''!divide 10 -0'' \<longrightarrow>
        on_message bs msg = [PlainText ''Error: Cannot divide by zero!''])
   \<and> (msg_author msg \<noteq> bot_user bs \<longrightarrow> msg_content msg = ''!divide 10 0.00'' \<longrightarrow>
        on_message bs msg = [PlainText ''Error: Cannot divide by zero!''])"
proof (intro conjI impI)
  show "\<exists>sent. divide c num1 num2 = Inr sent"
    by (simp add: divide_total)
  show "py_float ''-0'' = Some (Finite True 0 0)" by (rule py_float_neg0)
  show "py_float ''0.00'' = Some (Finite False 0 0)" by (rule py_float_000)
  show "float_is_zero (Finite True 0 0)" and "float_is_zero (Finite False 0 0)" by simp_all
next
  assume "py_truediv num1 num2 = Inl ZeroDivisionError"
  then have "float_is_zero num2"
    by (simp add: py_truediv_def split: if_splits)
  then show "divide c num1 num2 = Inr [PlainText ''Error: Cannot divide by zero!'']"
    by (simp add: divide_total)
next
  assume z: "float_is_zero num2"
  then show "float_eq_int num2 0" by (simp add: float_eq_int_zero)
  from z show "divide c num1 num2 = Inr [PlainText ''Error: Cannot divide by zero!'']"
    by (simp add: divide_total)
next
  assume "py_float t1 = Some num1" and "py_float t2 = Some num2" and "float_is_zero num2"
  then show "invoke divide_command bs c (t1 # t2 # rest)
      = [PlainText ''Error: Cannot divide by zero!'']"
    by (simp add: invoke_divide)
next
  assume a: "msg_author msg \<noteq> bot_user bs" and "msg_content msg = ''!divide 10 -0''"
  then have "msg_content msg = command_prefix # ''divide 10 -0''"
    by (simp add: command_prefix_def)
  from divide_10_zero [OF a this name_divide_10_neg0 args_divide_10_neg0 py_float_neg0]
  show "on_message bs msg = [PlainText ''Error: Cannot divide by zero!'']" .
next
  assume a: "msg_author msg \<noteq> bot_user bs" and "msg_content msg = ''!divide 10 0.00''"
  then have "msg_content msg = command_prefix # ''divide 10 0.00''"
    by (simp add: command_prefix_def)
  from divide_10_zero [OF a this name_divide_10_000 args_divide_10_000 py_float_000]
  show "on_message bs msg = [PlainText ''Error: Cannot divide by zero!'']" .
qed

theorem divide_never_divides_by_zero_witness:
  "py_truediv (Finite False 5629499534213120 (- 49)) (Finite True 0 0) = Inl ZeroDivisionError
   \<and> divide \<lparr>ctx_message = user_message ''!divide 10 -0''\<rparr>
        (Finite False 5629499534213120 (- 49)) (Finite True 0 0)
      = Inr [PlainText ''Error: Cannot divide by zero!'']
   \<and> invoke divide_command example_bot \<lparr>ctx_message = user_message ''!divide 10 -0''\<rparr>
        [''10'', ''-0''] = [PlainText ''Error: Cannot divide by zero!'']
   \<and> on_message example_bot (user_message ''!divide 10 -0'')
      = [PlainText ''Error: Cannot divide by zero!'']
   \<and> on_message example_bot (user_message ''!divide 10 0.00'')
      = [PlainText ''Error: Cannot divide by zero!'']"
proof -
  note neg = divide_never_divides_by_zero [of "\<lparr>ctx_message = user_message ''!divide 10 -0''\<rparr>"
      "Finite False 5629499534213120 (- 49)" "Finite True 0 0" "''10''" "''-0''" example_bot "[]"
      "user_message ''!divide 10 -0''"]
  note dec = divide_never_divides_by_zero [of "\<lparr>ctx_message = user_message ''!divide 10 0.00''\<rparr>"
      "Finite False 5629499534213120 (- 49)" "Finite False 0 0" "''10''" "''0.00''" example_bot "[]"
      "user_message ''!divide 10 0.00''"]
  have ids: "msg_author (user_message t) \<noteq> bot_user example_bot"
    "msg_content (user_message t) = t" for t
    by (simp_all add: user_message_def example_bot_def)
  have raise: "py_truediv (Finite False 5629499534213120 (- 49)) (Finite True 0 0)
      = Inl ZeroDivisionError"
    by (simp add: py_truediv_def)
  from neg dec ids py_float_10 raise show ?thesis by simp
qed

text \<open>
  C10. The error handler of \<open>divide\<close> sends a reply if and only if the error is a
  \<open>MissingRequiredArgument\<close> or a \<open>BadArgument\<close>; for every other kind of error it sends
  nothing. It is the handler every failure of \<open>divide\<close> is delivered to.
\<close>

theorem divide_error_replies_iff:
  "(divide_error c e \<noteq> []) = ((\<exists>p. e = MissingRequiredArgument p) \<or> (\<exists>p. e = BadArgument p))
   \<and> dispatch_error divide_command c e = divide_error c e"
  by (cases e) (simp_all add: dispatch_error_def divide_command_def)

theorem divide_error_replies_iff_witness:
  "divide_error \<lparr>ctx_message = user_message ''!divide 1 2''\<rparr> (CommandInvokeError ZeroDivisionError) = []
   \<and> divide_error \<lparr>ctx_message = user_message ''!divide 1 2''\<rparr> TooManyArguments = []
   \<and> divide_error \<lparr>ctx_message = user_message ''!divide''\<rparr> (MissingRequiredArgument ''num1'') \<noteq> []
   \<and> divide_error \<lparr>ctx_message = user_message ''!divide x''\<rparr> (BadArgument ''num1'') \<noteq> []"
  using divide_error_replies_iff [of "\<lparr>ctx_message = user_message ''!divide 1 2''\<rparr>"
      "CommandInvokeError ZeroDivisionError"]
    divide_error_replies_iff [of "\<lparr>ctx_message = user_message ''!divide 1 2''\<rparr>" TooManyArguments]
    divide_error_replies_iff [of "\<lparr>ctx_message = user_message ''!divide''\<rparr>"
      "MissingRequiredArgument ''num1''"]
    divide_error_replies_iff [of "\<lparr>ctx_message = user_message ''!divide x''\<rparr>" "BadArgument ''num1''"]
  by simp

end
